theory Spec2Isabelle
  imports Complex_Main
begin

section \<open>Python values\<close>

text \<open>
  The handler of \<^verbatim>\<open>src/main.py\<close> passes around values whose Python type is not fixed:
  whatever \<^verbatim>\<open>json.loads\<close> and \<^verbatim>\<open>response.json()\<close> produce. They are modelled by one
  datatype of JSON-shaped Python objects. A \<^verbatim>\<open>str\<close> is the list of its characters, a
  \<^verbatim>\<open>dict\<close> is an association list in insertion order (looked up with \<open>map_of\<close>), a
  finite \<^verbatim>\<open>float\<close> is the rational it denotes.
\<close>

datatype pyval =
    PNone
  | PBool bool
  | PInt int
  | PFloat rat
  | PStr string
  | PList "pyval list"
  | PDict "(string \<times> pyval) list"

text \<open>
  Exceptions. \<open>RequestException\<close> stands for \<^verbatim>\<open>requests.exceptions.RequestException\<close> and
  its subclasses (the only class the source catches by name), with \<^verbatim>\<open>str(e)\<close> as argument;
  \<open>OtherException\<close> is any other exception a backend raises.
\<close>

datatype py_exn =
    TypeError
  | AttributeError
  | KeyError
  | RequestException string
  | OtherException string

text \<open>Truth value of an object, as \<^verbatim>\<open>if x\<close> and \<^verbatim>\<open>not x\<close> take it.\<close>

fun truthy :: "pyval \<Rightarrow> bool" where
  "truthy PNone = False"
| "truthy (PBool b) = b"
| "truthy (PInt i) = (i \<noteq> 0)"
| "truthy (PFloat r) = (r \<noteq> 0)"
| "truthy (PStr s) = (s \<noteq> [])"
| "truthy (PList xs) = (xs \<noteq> [])"
| "truthy (PDict kvs) = (kvs \<noteq> [])"

fun startswith :: "string \<Rightarrow> string \<Rightarrow> bool" where
  "startswith s [] = True"
| "startswith [] (p # ps) = False"
| "startswith (c # cs) (p # ps) = (c = p \<and> startswith cs ps)"

text \<open>\<open>substring_of n s\<close>: the string \<open>n\<close> occurs in \<open>s\<close> (\<^verbatim>\<open>n in s\<close> on two strings).\<close>

fun substring_of :: "string \<Rightarrow> string \<Rightarrow> bool" where
  "substring_of n [] = (n = [])"
| "substring_of n (c # cs) = (startswith (c # cs) n \<or> substring_of n cs)"

text \<open>
  \<^verbatim>\<open>key in x\<close> for a string \<^verbatim>\<open>key\<close>: key membership on a dict, element membership on a
  list (a string equals no object of another type), substring test on a string, and
  \<^verbatim>\<open>TypeError: argument of type ... is not iterable\<close> on None, bool, int and float.
\<close>

fun py_in :: "string \<Rightarrow> pyval \<Rightarrow> py_exn + bool" where
  "py_in k (PDict kvs) = Inr (k \<in> set (map fst kvs))"
| "py_in k (PList xs) = Inr (PStr k \<in> set xs)"
| "py_in k (PStr s) = Inr (substring_of k s)"
| "py_in k PNone = Inl TypeError"
| "py_in k (PBool b) = Inl TypeError"
| "py_in k (PInt i) = Inl TypeError"
| "py_in k (PFloat r) = Inl TypeError"

text \<open>
  \<^verbatim>\<open>x[key]\<close> for a string \<^verbatim>\<open>key\<close>: the value on a dict (KeyError when absent);
  TypeError on a list or a string (indices must be integers) and on the objects that are
  not subscriptable.
\<close>

fun py_getitem :: "pyval \<Rightarrow> string \<Rightarrow> py_exn + pyval" where
  "py_getitem (PDict kvs) k = (case map_of kvs k of None \<Rightarrow> Inl KeyError | Some v \<Rightarrow> Inr v)"
| "py_getitem (PList xs) k = Inl TypeError"
| "py_getitem (PStr s) k = Inl TypeError"
| "py_getitem PNone k = Inl TypeError"
| "py_getitem (PBool b) k = Inl TypeError"
| "py_getitem (PInt i) k = Inl TypeError"
| "py_getitem (PFloat r) k = Inl TypeError"

text \<open>
  \<^verbatim>\<open>x.get(key, default)\<close>: only a dict has the method; every other object raises
  AttributeError.
\<close>

fun py_get :: "pyval \<Rightarrow> string \<Rightarrow> pyval \<Rightarrow> py_exn + pyval" where
  "py_get (PDict kvs) k d = (case map_of kvs k of None \<Rightarrow> Inr d | Some v \<Rightarrow> Inr v)"
| "py_get (PList xs) k d = Inl AttributeError"
| "py_get (PStr s) k d = Inl AttributeError"
| "py_get PNone k d = Inl AttributeError"
| "py_get (PBool b) k d = Inl AttributeError"
| "py_get (PInt i) k d = Inl AttributeError"
| "py_get (PFloat r) k d = Inl AttributeError"

text \<open>
  The objects a \<^verbatim>\<open>for\<close> loop visits: the elements of a list, the keys of a dict, the
  characters of a string; TypeError on the objects that are not iterable.
\<close>

fun py_iter :: "pyval \<Rightarrow> py_exn + pyval list" where
  "py_iter (PList xs) = Inr xs"
| "py_iter (PDict kvs) = Inr (map (\<lambda>kv. PStr (fst kv)) kvs)"
| "py_iter (PStr s) = Inr (map (\<lambda>c. PStr [c]) s)"
| "py_iter PNone = Inl TypeError"
| "py_iter (PBool b) = Inl TypeError"
| "py_iter (PInt i) = Inl TypeError"
| "py_iter (PFloat r) = Inl TypeError"

section \<open>Text extractor: \<^verbatim>\<open>ocr_image\<close>\<close>

text \<open>
  \<^verbatim>\<open>str.strip()\<close> removes leading and trailing whitespace. The whitespace characters
  (\<^verbatim>\<open>str.isspace\<close>) among the 256 characters of \<open>char\<close> are listed by code point.
\<close>

definition isspace :: "char \<Rightarrow> bool" where
  "isspace c = (of_char c \<in> {9, 10, 11, 12, 13, 28, 29, 30, 31, 32, 133, 160 :: nat})"

definition strip :: "string \<Rightarrow> string" where
  "strip s = rev (dropWhile isspace (rev (dropWhile isspace s)))"

text \<open>
  The OCR backend \<^verbatim>\<open>ocr_model.ocr(image_path, cls=True)\<close> reads the file at the path and
  either raises (\<open>Inl\<close>, with \<^verbatim>\<open>str(e)\<close>) or returns a list of lines, each a list of
  detections \<^verbatim>\<open>[box, (text, confidence)]\<close>. The types of boxes and confidences are left
  open. The file system is a map from paths to contents.
\<close>

type_synonym bytes = "char list"
type_synonym path = string
type_synonym filesystem = "path \<Rightarrow> bytes option"
type_synonym ('b, 'c) word_info = "'b \<times> (string \<times> 'c)"
type_synonym ('b, 'c) ocr_backend =
  "path \<Rightarrow> filesystem \<Rightarrow> string + ('b, 'c) word_info list list"

text \<open>
  The two nested loops of \<^verbatim>\<open>ocr_image\<close>; \<^verbatim>\<open>word_info[1][0]\<close> is the recognized text.
  \<^verbatim>\<open>except Exception as e: return str(e)\<close> makes the message the function's result.
\<close>

definition ocr_image :: "('b, 'c) ocr_backend \<Rightarrow> filesystem \<Rightarrow> path \<Rightarrow> string" where
  "ocr_image ocr_model fs image_path =
     (case ocr_model image_path fs of
        Inl msg \<Rightarrow> msg
      | Inr result \<Rightarrow>
          strip (foldl (\<lambda>text line.
                   foldl (\<lambda>text word_info. text @ fst (snd word_info) @ '' '') text line)
                 [] result))"

section \<open>Text normalizer: \<^verbatim>\<open>clean_text_with_openai\<close>\<close>

text \<open>
  A thread message as the assistant API lists it: its role, its creation time and its
  content parts. Only a part of type \<^verbatim>\<open>text\<close> carries \<^verbatim>\<open>text.value\<close>.
\<close>

datatype content_part = TextPart string | NonTextPart

record message =
  role :: string
  created_at :: nat
  content :: "content_part list"

text \<open>
  The assistant backend stands for the four client calls (thread creation, posting the
  user message, the streamed run, listing the messages): given the posted text it raises
  or yields the listed messages, in the order the listing iterates them.
  \<^verbatim>\<open>json.loads\<close> is a parameter: \<open>None\<close> is \<^verbatim>\<open>JSONDecodeError\<close>.
\<close>

type_synonym assistant_backend = "string \<Rightarrow> py_exn + message list"
type_synonym json_loads = "string \<Rightarrow> pyval option"

text \<open>
  The loop over the content parts: \<open>Inl\<close> is the value the enclosing function returns
  from inside the loop, \<open>Inr\<close> is \<^verbatim>\<open>response_json\<close> when the loop ends.
\<close>

fun extract_json :: "json_loads \<Rightarrow> content_part list \<Rightarrow> pyval + pyval" where
  "extract_json loads [] = Inr PNone"
| "extract_json loads (TextPart v # rest) =
     (case loads v of
        Some j \<Rightarrow> Inr j
      | None \<Rightarrow> Inl (PDict [(''error'', PStr ''Failed to decode JSON from assistant response'')]))"
| "extract_json loads (NonTextPart # rest) = extract_json loads rest"

definition clean_text_with_openai ::
  "assistant_backend \<Rightarrow> json_loads \<Rightarrow> string \<Rightarrow> py_exn + pyval" where
  "clean_text_with_openai assistant loads text =
     (case assistant text of
        Inl e \<Rightarrow> Inl e
      | Inr messages \<Rightarrow>
          (case find (\<lambda>m. role m = ''assistant'') messages of
             None \<Rightarrow> Inr (PDict [(''error'', PStr ''Assistant response not found'')])
           | Some assistant_message \<Rightarrow>
               (case extract_json loads (content assistant_message) of
                  Inl early \<Rightarrow> Inr early
                | Inr response_json \<Rightarrow>
                    if \<not> truthy response_json
                    then Inr (PDict [(''error'', PStr ''Invalid response schema'')])
                    else (case py_in ''books'' response_json of
                            Inl e \<Rightarrow> Inl e
                          | Inr True \<Rightarrow> py_getitem response_json ''books''
                          | Inr False \<Rightarrow>
                              Inr (PDict [(''error'', PStr ''Invalid response schema'')])))))"

section \<open>Catalog enricher: \<^verbatim>\<open>query_hardcover_graphql\<close>\<close>

text \<open>
  What \<^verbatim>\<open>requests.post\<close> gives back: the status code, the message \<^verbatim>\<open>raise_for_status\<close>
  would attach to its HTTPError, and what \<^verbatim>\<open>response.json()\<close> does (raise, or the
  decoded body). The catalog backend maps the query variable to a raised exception or to
  a response.
\<close>

record http_response =
  status_code :: nat
  http_error_text :: string
  json_body :: "py_exn + pyval"

type_synonym catalog_backend = "pyval \<Rightarrow> py_exn + http_response"

text \<open>
  \<^verbatim>\<open>Response.raise_for_status\<close> of the requests library raises HTTPError, a
  RequestException, exactly for the status codes 400 to 599.
\<close>

definition raise_for_status :: "http_response \<Rightarrow> py_exn + unit" where
  "raise_for_status response =
     (if 400 \<le> status_code response \<and> status_code response < 600
      then Inl (RequestException (http_error_text response))
      else Inr ())"

text \<open>The body of the \<^verbatim>\<open>try\<close> block.\<close>

definition query_try :: "catalog_backend \<Rightarrow> pyval \<Rightarrow> py_exn + pyval" where
  "query_try post similar_title =
     (case post similar_title of
        Inl e \<Rightarrow> Inl e
      | Inr response \<Rightarrow>
          (case raise_for_status response of
             Inl e \<Rightarrow> Inl e
           | Inr _ \<Rightarrow>
               (case json_body response of
                  Inl e \<Rightarrow> Inl e
                | Inr data \<Rightarrow>
                    (case py_in ''errors'' data of
                       Inl e \<Rightarrow> Inl e
                     | Inr True \<Rightarrow>
                         (case py_getitem data ''errors'' of
                            Inl e \<Rightarrow> Inl e
                          | Inr errs \<Rightarrow> Inr (PDict [(''error'', errs)]))
                     | Inr False \<Rightarrow> py_get data ''data'' (PDict [])))))"

text \<open>The \<^verbatim>\<open>except requests.exceptions.RequestException\<close> clause around it.\<close>

definition query_hardcover_graphql :: "catalog_backend \<Rightarrow> pyval \<Rightarrow> py_exn + pyval" where
  "query_hardcover_graphql post similar_title =
     (case query_try post similar_title of
        Inl (RequestException msg) \<Rightarrow> Inr (PDict [(''error'', PStr msg)])
      | Inl e \<Rightarrow> Inl e
      | Inr v \<Rightarrow> Inr v)"

section \<open>Pipeline orchestrator: \<^verbatim>\<open>process_image\<close>\<close>

text \<open>
  The request: \<^verbatim>\<open>request.files\<close> maps a form field to the uploaded file. A response is
  the status code and the object given to \<^verbatim>\<open>jsonify\<close>. The handler's result is an
  exception leaving it (\<open>Inl\<close>) or a response, together with the calls it made to the
  three stages, in order.
\<close>

record upload =
  filename :: string
  data :: bytes

record request =
  files :: "string \<Rightarrow> upload option"

type_synonym response = "nat \<times> pyval"

datatype call = OcrCall path | NormalizeCall string | CatalogCall pyval

text \<open>
  The loop over \<^verbatim>\<open>cleaned_books\<close>, with \<^verbatim>\<open>all_books_info\<close> as accumulator. The result is an
  exception, or \<open>Inr (Inl r)\<close> for the \<^verbatim>\<open>return\<close> inside the loop, or \<open>Inr (Inr acc)\<close>
  when the loop ends.
\<close>

fun enrich_each ::
  "catalog_backend \<Rightarrow> pyval list \<Rightarrow> pyval list \<Rightarrow> call list
    \<Rightarrow> call list \<times> (py_exn + (response + pyval list))" where
  "enrich_each post [] all_books_info tr = (tr, Inr (Inr all_books_info))"
| "enrich_each post (book # rest) all_books_info tr =
     (case py_get book ''title'' (PStr '''') of
        Inl e \<Rightarrow> (tr, Inl e)
      | Inr title \<Rightarrow>
          (case py_get book ''author'' (PStr '''') of
             Inl e \<Rightarrow> (tr, Inl e)
           | Inr author \<Rightarrow>
               if \<not> truthy title then enrich_each post rest all_books_info tr
               else
                 (case query_hardcover_graphql post title of
                    Inl e \<Rightarrow> (tr @ [CatalogCall title], Inl e)
                  | Inr graphql_response \<Rightarrow>
                      (case py_in ''error'' graphql_response of
                         Inl e \<Rightarrow> (tr @ [CatalogCall title], Inl e)
                       | Inr True \<Rightarrow>
                           (case py_getitem graphql_response ''error'' of
                              Inl e \<Rightarrow> (tr @ [CatalogCall title], Inl e)
                            | Inr detail \<Rightarrow>
                                (tr @ [CatalogCall title],
                                 Inr (Inl (500, PDict [(''error'', detail)]))))
                       | Inr False \<Rightarrow>
                           (case py_get graphql_response ''books'' (PList []) of
                              Inl e \<Rightarrow> (tr @ [CatalogCall title], Inl e)
                            | Inr hardcover_books \<Rightarrow>
                                enrich_each post rest
                                  (all_books_info @
                                     [PDict [(''extracted_title'', title),
                                             (''extracted_author'', author),
                                             (''hardcover_books'', hardcover_books)]])
                                  (tr @ [CatalogCall title]))))))"

text \<open>
  The handler. \<open>temp_name\<close> is the name \<^verbatim>\<open>tempfile.NamedTemporaryFile\<close> picks;
  \<^verbatim>\<open>file.save(temp.name)\<close> writes the upload there before the OCR call.
\<close>

definition process_image ::
  "('b, 'c) ocr_backend \<Rightarrow> assistant_backend \<Rightarrow> json_loads \<Rightarrow> catalog_backend
    \<Rightarrow> filesystem \<Rightarrow> path \<Rightarrow> request \<Rightarrow> call list \<times> (py_exn + response)" where
  "process_image ocr_model assistant loads post fs temp_name req =
     (case files req ''file'' of
        None \<Rightarrow> ([], Inr (400, PDict [(''error'', PStr ''No file uploaded'')]))
      | Some file \<Rightarrow>
          if filename file = ''''
          then ([], Inr (400, PDict [(''error'', PStr ''No selected file'')]))
          else
            let extracted_text = ocr_image ocr_model (fs(temp_name \<mapsto> data file)) temp_name
            in if extracted_text = ''''
               then ([OcrCall temp_name],
                     Inr (500, PDict [(''error'', PStr ''Could not extract text from image'')]))
               else
                 (case clean_text_with_openai assistant loads extracted_text of
                    Inl e \<Rightarrow> ([OcrCall temp_name, NormalizeCall extracted_text], Inl e)
                  | Inr cleaned_books \<Rightarrow>
                      (case py_in ''error'' cleaned_books of
                         Inl e \<Rightarrow> ([OcrCall temp_name, NormalizeCall extracted_text], Inl e)
                       | Inr True \<Rightarrow>
                           (case py_getitem cleaned_books ''error'' of
                              Inl e \<Rightarrow>
                                ([OcrCall temp_name, NormalizeCall extracted_text], Inl e)
                            | Inr detail \<Rightarrow>
                                ([OcrCall temp_name, NormalizeCall extracted_text],
                                 Inr (500, PDict [(''error'', detail)])))
                       | Inr False \<Rightarrow>
                           (case py_iter cleaned_books of
                              Inl e \<Rightarrow>
                                ([OcrCall temp_name, NormalizeCall extracted_text], Inl e)
                            | Inr books \<Rightarrow>
                                (case enrich_each post books []
                                        [OcrCall temp_name, NormalizeCall extracted_text] of
                                   (tr, Inl e) \<Rightarrow> (tr, Inl e)
                                 | (tr, Inr (Inl resp)) \<Rightarrow> (tr, Inr resp)
                                 | (tr, Inr (Inr all_books_info)) \<Rightarrow>
                                     (tr,
                                      Inr (200,
                                           PDict [(''extracted_text'', PStr extracted_text),
                                                  (''books_info'',
                                                   PList all_books_info)])))))))"

section \<open>Notions of the specification\<close>

text \<open>
  \<open>join_with sep ts\<close> is \<^verbatim>\<open>sep.join(ts)\<close>: the strings of \<open>ts\<close> in order, with one \<open>sep\<close>
  between neighbours. The specification describes the extracted text with it.
\<close>

fun join_with :: "string \<Rightarrow> string list \<Rightarrow> string" where
  "join_with sep [] = []"
| "join_with sep [t] = t"
| "join_with sep (t # u # us) = t @ sep @ join_with sep (u # us)"

text \<open>
  The test \<^verbatim>\<open>if not title: continue\<close> of the loop, as a predicate on the candidate:
  \<open>title_missing\<close> holds when the loop skips the candidate, \<open>title_kept\<close> when it goes
  on to the lookup. Neither holds when \<^verbatim>\<open>book.get\<close> raises.
\<close>

definition title_missing :: "pyval \<Rightarrow> bool" where
  "title_missing book =
     (case py_get book ''title'' (PStr '''') of Inl e \<Rightarrow> False | Inr title \<Rightarrow> \<not> truthy title)"

definition title_kept :: "pyval \<Rightarrow> bool" where
  "title_kept book =
     (case py_get book ''title'' (PStr '''') of Inl e \<Rightarrow> False | Inr title \<Rightarrow> truthy title)"

text \<open>
  The specification's words: a candidate with a non-empty title is a record whose
  \<^verbatim>\<open>title\<close> is present and not the empty string; a candidate with an empty or missing
  title is a record without \<^verbatim>\<open>title\<close> or with the empty string there.
\<close>

fun spec_nonempty_title :: "pyval \<Rightarrow> bool" where
  "spec_nonempty_title (PDict kvs) =
     (case map_of kvs ''title'' of None \<Rightarrow> False | Some t \<Rightarrow> t \<noteq> PStr '''')"
| "spec_nonempty_title other = False"

fun spec_empty_title :: "pyval \<Rightarrow> bool" where
  "spec_empty_title (PDict kvs) =
     (case map_of kvs ''title'' of None \<Rightarrow> True | Some t \<Rightarrow> t = PStr '''')"
| "spec_empty_title other = False"

text \<open>
  The specification's BookCandidate list: a list of records whose \<^verbatim>\<open>title\<close> is a string
  and whose \<^verbatim>\<open>author\<close>, when present, is a string.
\<close>

fun spec_is_string :: "pyval \<Rightarrow> bool" where
  "spec_is_string (PStr s) = True"
| "spec_is_string other = False"

fun spec_book_candidate :: "pyval \<Rightarrow> bool" where
  "spec_book_candidate (PDict kvs) =
     ((case map_of kvs ''title'' of None \<Rightarrow> False | Some t \<Rightarrow> spec_is_string t)
      \<and> (case map_of kvs ''author'' of None \<Rightarrow> True | Some a \<Rightarrow> spec_is_string a))"
| "spec_book_candidate other = False"

fun spec_candidate_list :: "pyval \<Rightarrow> bool" where
  "spec_candidate_list (PList xs) = list_all spec_book_candidate xs"
| "spec_candidate_list other = False"

section \<open>Example requests and backends\<close>

text \<open>
  Requests: a photo uploaded as \<^verbatim>\<open>file\<close>, the same photo under another filename, no
  upload, an upload without filename.
\<close>

definition example_request :: request where
  "example_request = \<lparr>files = [''file'' \<mapsto> \<lparr>filename = ''shelf.jpg'', data = ''pixels''\<rparr>]\<rparr>"

definition example_request_renamed :: request where
  "example_request_renamed =
     \<lparr>files = [''file'' \<mapsto> \<lparr>filename = ''IMG_0042.JPG'', data = ''pixels''\<rparr>]\<rparr>"

definition request_without_file :: request where
  "request_without_file = \<lparr>files = Map.empty\<rparr>"

definition request_empty_filename :: request where
  "request_empty_filename = \<lparr>files = [''file'' \<mapsto> \<lparr>filename = '''', data = ''pixels''\<rparr>]\<rparr>"

text \<open>
  OCR backends: one that reads the image and detects two lines, \<^verbatim>\<open>Dune\<close> and
  \<^verbatim>\<open>Frank Herbert\<close>; one that raises \<^verbatim>\<open>Exception("boom")\<close>; one that raises an
  exception whose message names the path it was given.
\<close>

definition ocr_reads_dune :: "(nat, nat) ocr_backend" where
  "ocr_reads_dune image_path fs =
     (case fs image_path of
        None \<Rightarrow> Inl ''cannot open image''
      | Some img \<Rightarrow> Inr [[(0, (''Dune'', 99))], [(1, (''Frank'', 98)), (2, (''Herbert'', 97))]])"

definition ocr_raises_boom :: "(nat, nat) ocr_backend" where
  "ocr_raises_boom image_path fs = Inl ''boom''"

definition ocr_names_path :: "(nat, nat) ocr_backend" where
  "ocr_names_path image_path fs = Inl (''cannot read '' @ image_path)"

text \<open>
  Assistant replies, as JSON texts, and what \<^verbatim>\<open>json.loads\<close> makes of them
  (\<open>quoted s\<close> is \<open>s\<close> between double quotes). \<open>example_loads\<close> is \<^verbatim>\<open>json.loads\<close> on
  these texts and on texts that are not JSON; it is used on no other text.
\<close>

definition quoted :: "string \<Rightarrow> string" where
  "quoted s = CHR 0x22 # s @ [CHR 0x22]"

definition reply_number :: string where
  "reply_number = ''5''"

definition reply_empty_object :: string where
  "reply_empty_object = ''{}''"

definition reply_books_number :: string where
  "reply_books_number = ''{'' @ quoted ''books'' @ '': 5}''"

definition reply_no_books :: string where
  "reply_no_books = ''{'' @ quoted ''books'' @ '': []}''"

definition reply_books_error :: string where
  "reply_books_error = ''{'' @ quoted ''books'' @ '': ['' @ quoted ''error'' @ '']}''"

definition reply_empty_title :: string where
  "reply_empty_title =
     ''{'' @ quoted ''books'' @ '': [{'' @ quoted ''title'' @ '': '' @ quoted '''' @ '', ''
       @ quoted ''author'' @ '': '' @ quoted ''X'' @ ''}]}''"

definition reply_dune :: string where
  "reply_dune =
     ''{'' @ quoted ''books'' @ '': [{'' @ quoted ''title'' @ '': '' @ quoted '''' @ '', ''
       @ quoted ''author'' @ '': '' @ quoted ''X'' @ ''}, {''
       @ quoted ''title'' @ '': '' @ quoted ''Dune'' @ '', ''
       @ quoted ''author'' @ '': '' @ quoted ''Frank Herbert'' @ ''}]}''"

definition example_loads :: json_loads where
  "example_loads s =
     (if s = reply_number then Some (PInt 5)
      else if s = reply_empty_object then Some (PDict [])
      else if s = reply_books_number then Some (PDict [(''books'', PInt 5)])
      else if s = reply_no_books then Some (PDict [(''books'', PList [])])
      else if s = reply_books_error then Some (PDict [(''books'', PList [PStr ''error''])])
      else if s = reply_empty_title
        then Some (PDict [(''books'',
               PList [PDict [(''title'', PStr ''''), (''author'', PStr ''X'')]])])
      else if s = reply_dune
        then Some (PDict [(''books'',
               PList [PDict [(''title'', PStr ''''), (''author'', PStr ''X'')],
                      PDict [(''title'', PStr ''Dune''), (''author'', PStr ''Frank Herbert'')]])])
      else None)"

text \<open>
  A thread after a completed run, newest message first: the assistant's reply, then the
  user's message; a thread with two assistant messages; a thread in which the assistant
  has not replied.
\<close>

definition assistant_replying :: "string \<Rightarrow> assistant_backend" where
  "assistant_replying reply text =
     Inr [\<lparr>role = ''assistant'', created_at = 2, content = [TextPart reply]\<rparr>,
          \<lparr>role = ''user'', created_at = 1, content = [TextPart text]\<rparr>]"

definition assistant_replying_twice :: assistant_backend where
  "assistant_replying_twice text =
     Inr [\<lparr>role = ''assistant'', created_at = 3, content = [TextPart reply_no_books]\<rparr>,
          \<lparr>role = ''assistant'', created_at = 2, content = [TextPart reply_number]\<rparr>,
          \<lparr>role = ''user'', created_at = 1, content = [TextPart text]\<rparr>]"

definition assistant_silent :: assistant_backend where
  "assistant_silent text = Inr [\<lparr>role = ''user'', created_at = 1, content = [TextPart text]\<rparr>]"

text \<open>
  Catalog backends: a refused connection; a 404 reply without JSON body; a GraphQL error
  reply; a reply without match; a reply whose body is a JSON array; a reply with status
  300 that carries data.
\<close>

definition catalog_unreachable :: catalog_backend where
  "catalog_unreachable similar_title = Inl (RequestException ''connection refused'')"

definition catalog_not_found :: catalog_backend where
  "catalog_not_found similar_title =
     Inr \<lparr>status_code = 404,
          http_error_text = ''404 Client Error: Not Found for url: https://api.hardcover.app/v1/graphql'',
          json_body = Inl (RequestException ''Expecting value: line 1 column 1 (char 0)'')\<rparr>"

definition catalog_graphql_errors :: catalog_backend where
  "catalog_graphql_errors similar_title =
     Inr \<lparr>status_code = 200, http_error_text = '''',
          json_body = Inr (PDict [(''errors'',
                        PList [PDict [(''message'', PStr ''field not found'')]])])\<rparr>"

definition catalog_no_match :: catalog_backend where
  "catalog_no_match similar_title =
     Inr \<lparr>status_code = 200, http_error_text = '''',
          json_body = Inr (PDict [(''data'', PDict [(''books'', PList [])])])\<rparr>"

definition catalog_array_body :: catalog_backend where
  "catalog_array_body similar_title =
     Inr \<lparr>status_code = 200, http_error_text = '''', json_body = Inr (PList [])\<rparr>"

definition catalog_status_300 :: catalog_backend where
  "catalog_status_300 similar_title =
     Inr \<lparr>status_code = 300, http_error_text = '''',
          json_body = Inr (PDict [(''data'', PDict [(''books'', PList [])])])\<rparr>"

lemmas example_defs =
  example_request_def example_request_renamed_def request_without_file_def request_empty_filename_def
  ocr_reads_dune_def ocr_raises_boom_def quoted_def reply_number_def reply_empty_object_def
  reply_books_number_def reply_no_books_def reply_books_error_def reply_empty_title_def
  reply_dune_def example_loads_def assistant_replying_def assistant_silent_def
  catalog_unreachable_def catalog_graphql_errors_def catalog_no_match_def
  catalog_status_300_def assistant_replying_twice_def catalog_not_found_def
  catalog_array_body_def ocr_names_path_def

lemmas source_defs =
  process_image_def Let_def ocr_image_def strip_def isspace_def clean_text_with_openai_def
  query_hardcover_graphql_def query_try_def raise_for_status_def

section \<open>Lemmas\<close>

lemma inner_loop_concat:
  "foldl (\<lambda>text word_info. text @ fst (snd word_info) @ '' '') acc line
     = acc @ concat (map (\<lambda>w. fst (snd w) @ '' '') line)"
  by (induction line arbitrary: acc) simp_all

lemma outer_loop_concat:
  "foldl (\<lambda>text line. foldl (\<lambda>text word_info. text @ fst (snd word_info) @ '' '') text line)
      acc result
     = acc @ concat (map (\<lambda>w. fst (snd w) @ '' '') (concat result))"
  by (induction result arbitrary: acc) (simp_all add: inner_loop_concat)

lemma concat_sep_join:
  "ts \<noteq> [] \<Longrightarrow> concat (map (\<lambda>t. t @ sep) ts) = join_with sep ts @ sep"
  by (induction sep ts rule: join_with.induct) simp_all

lemma isspace_space: "isspace CHR '' ''"
  by (simp add: isspace_def)

lemma strip_trailing_space: "strip (s @ '' '') = strip s"
proof (cases "\<forall>c\<in>set s. isspace c")
  case True
  then have a: "dropWhile isspace (s @ '' '') = []"
    by (simp add: isspace_space)
  from True have b: "dropWhile isspace s = []"
    by (simp only: dropWhile_eq_Nil_conv)
  show ?thesis unfolding strip_def a b ..
next
  case False
  then obtain c where "c \<in> set s" and "\<not> isspace c" by blast
  then have "dropWhile isspace (s @ '' '') = dropWhile isspace s @ '' ''"
    by (rule dropWhile_append1)
  then show ?thesis by (simp add: strip_def isspace_space)
qed

lemma process_image_normalized:
  assumes "files req ''file'' = Some upfile" and "filename upfile \<noteq> ''''"
    and "ocr_image ocr_model (fs(temp_name \<mapsto> data upfile)) temp_name = raw_text"
    and "raw_text \<noteq> ''''"
    and "clean_text_with_openai assistant loads raw_text = Inr cleaned_books"
  shows "process_image ocr_model assistant loads post fs temp_name req =
     (case py_in ''error'' cleaned_books of
        Inl e \<Rightarrow> ([OcrCall temp_name, NormalizeCall raw_text], Inl e)
      | Inr True \<Rightarrow>
          (case py_getitem cleaned_books ''error'' of
             Inl e \<Rightarrow> ([OcrCall temp_name, NormalizeCall raw_text], Inl e)
           | Inr detail \<Rightarrow>
               ([OcrCall temp_name, NormalizeCall raw_text], Inr (500, PDict [(''error'', detail)])))
      | Inr False \<Rightarrow>
          (case py_iter cleaned_books of
             Inl e \<Rightarrow> ([OcrCall temp_name, NormalizeCall raw_text], Inl e)
           | Inr books \<Rightarrow>
               (case enrich_each post books [] [OcrCall temp_name, NormalizeCall raw_text] of
                  (tr, Inl e) \<Rightarrow> (tr, Inl e)
                | (tr, Inr (Inl resp)) \<Rightarrow> (tr, Inr resp)
                | (tr, Inr (Inr all_books_info)) \<Rightarrow>
                    (tr, Inr (200, PDict [(''extracted_text'', PStr raw_text),
                                          (''books_info'', PList all_books_info)])))))"
  using assms by (simp add: process_image_def)

lemma spec_empty_title_missing: "spec_empty_title b \<Longrightarrow> title_missing b"
  by (cases b) (auto simp: title_missing_def split: option.splits)

lemma title_kept_nonempty: "title_kept b \<Longrightarrow> spec_nonempty_title b"
  by (cases b) (auto simp: title_kept_def split: option.splits)

lemma title_missing_dict:
  "title_missing b \<Longrightarrow> \<exists>t. py_get b ''title'' (PStr '''') = Inr t \<and> \<not> truthy t"
  by (auto simp: title_missing_def split: sum.splits)

lemma py_get_total_on_dict:
  "py_get b k d = Inr v \<Longrightarrow> \<exists>w. py_get b k' d' = Inr w"
  by (cases b) (auto split: option.splits)

lemma enrich_each_skip_one:
  assumes "title_missing b"
  shows "enrich_each post (b # rest) acc tr = enrich_each post rest acc tr"
proof -
  from assms obtain t where t: "py_get b ''title'' (PStr '''') = Inr t" "\<not> truthy t"
    using title_missing_dict by auto
  then obtain a where a: "py_get b ''author'' (PStr '''') = Inr a"
    using py_get_total_on_dict by blast
  from t a show ?thesis by simp
qed

lemma enrich_each_skip:
  assumes "\<forall>b\<in>set pre. title_missing b"
  shows "enrich_each post (pre @ rest) acc tr = enrich_each post rest acc tr"
  using assms by (induction pre) (simp_all add: enrich_each_skip_one del: enrich_each.simps)

lemma enrich_each_cong_tail:
  assumes "\<And>acc tr. enrich_each post xs acc tr = enrich_each post ys acc tr"
  shows "enrich_each post (b # xs) acc tr = enrich_each post (b # ys) acc tr"
  by (simp add: assms split: sum.splits bool.splits)

lemma enrich_each_drops_empty:
  "enrich_each post books acc tr
     = enrich_each post (filter (\<lambda>b. \<not> spec_empty_title b) books) acc tr"
proof (induction books arbitrary: acc tr)
  case Nil
  then show ?case by simp
next
  case (Cons b books)
  show ?case
  proof (cases "spec_empty_title b")
    case True
    then show ?thesis
      using Cons.IH
      by (simp add: enrich_each_skip_one spec_empty_title_missing del: enrich_each.simps)
  next
    case False
    then have "filter (\<lambda>b. \<not> spec_empty_title b) (b # books)
                 = b # filter (\<lambda>b. \<not> spec_empty_title b) books"
      by simp
    then show ?thesis
      using enrich_each_cong_tail [of post books, OF Cons.IH] by simp
  qed
qed

lemma enrich_each_failure:
  assumes "py_get book ''title'' (PStr '''') = Inr title" and "truthy title"
    and "query_hardcover_graphql post title = Inr (PDict [(''error'', detail)])"
  shows "enrich_each post (book # rest) acc tr
           = (tr @ [CatalogCall title], Inr (Inl (500, PDict [(''error'', detail)])))"
proof -
  obtain a where a: "py_get book ''author'' (PStr '''') = Inr a"
    using assms(1) py_get_total_on_dict by blast
  with assms show ?thesis by simp
qed

lemma enrich_each_snd_trace:
  "snd (enrich_each post books acc tr) = snd (enrich_each post books acc tr')"
proof (induction books arbitrary: acc tr tr')
  case Nil
  then show ?case by simp
next
  case (Cons b books)
  show ?case
    by (auto split: sum.splits bool.splits intro: Cons.IH)
qed

lemma enrich_each_done:
  assumes "enrich_each post books acc tr = (tr', Inr (Inr all_books_info))"
  shows "\<exists>new. all_books_info = acc @ new
           \<and> map (\<lambda>r. py_get r ''extracted_title'' PNone) new
               = map (\<lambda>b. py_get b ''title'' (PStr '''')) (filter title_kept books)"
  using assms
proof (induction books arbitrary: acc tr)
  case Nil
  then show ?case by simp
next
  case (Cons b books)
  from Cons.prems obtain title author where
    t: "py_get b ''title'' (PStr '''') = Inr title" and
    a: "py_get b ''author'' (PStr '''') = Inr author"
    by (auto split: sum.splits)
  show ?case
  proof (cases "truthy title")
    case False
    with Cons.prems t a have "enrich_each post books acc tr = (tr', Inr (Inr all_books_info))"
      by simp
    moreover from False t have "\<not> title_kept b"
      by (simp add: title_kept_def)
    ultimately show ?thesis
      using Cons.IH by simp
  next
    case True
    with Cons.prems t a obtain hb where
      "enrich_each post books
         (acc @ [PDict [(''extracted_title'', title), (''extracted_author'', author),
                        (''hardcover_books'', hb)]]) (tr @ [CatalogCall title])
        = (tr', Inr (Inr all_books_info))"
      by (auto split: sum.splits bool.splits)
    from Cons.IH [OF this] obtain new where
      "all_books_info = (acc @ [PDict [(''extracted_title'', title), (''extracted_author'', author),
                        (''hardcover_books'', hb)]]) @ new"
      "map (\<lambda>r. py_get r ''extracted_title'' PNone) new
               = map (\<lambda>b. py_get b ''title'' (PStr '''')) (filter title_kept books)"
      by blast
    moreover from True t have "title_kept b"
      by (simp add: title_kept_def)
    ultimately show ?thesis
      using t by simp
  qed
qed

lemma enrich_each_early_status:
  "enrich_each post books acc tr = (tr', Inr (Inl (st, body))) \<Longrightarrow> st = 500"
  by (induction books arbitrary: acc tr) (auto split: sum.splits bool.splits if_splits)

lemma length_filter_mono:
  "(\<And>x. P x \<Longrightarrow> Q x) \<Longrightarrow> length (filter P xs) \<le> length (filter Q xs)"
  by (induction xs) auto

lemma find_first:
  "\<forall>x\<in>set pre. \<not> P x \<Longrightarrow> P m \<Longrightarrow> find P (pre @ m # post) = Some m"
  by (induction pre) auto

lemma extract_json_skips:
  "\<forall>p\<in>set skipped. p = NonTextPart \<Longrightarrow>
     extract_json loads (skipped @ parts) = extract_json loads parts"
  by (induction skipped) auto

lemma map_of_None_not_key: "map_of kvs k = None \<Longrightarrow> k \<notin> fst ` set kvs"
  by (simp add: map_of_eq_None_iff)

lemma map_of_Some_key: "map_of kvs k = Some v \<Longrightarrow> k \<in> fst ` set kvs"
  by (metis map_of_eq_None_iff option.distinct(1))

lemma clean_text_first_text_part:
  assumes "assistant raw_text = Inr messages"
    and "find (\<lambda>m. role m = ''assistant'') messages = Some m"
    and "content m = skipped @ TextPart v # rest"
    and "\<forall>p\<in>set skipped. p = NonTextPart"
  shows "clean_text_with_openai assistant loads raw_text =
     (case loads v of
        None \<Rightarrow> Inr (PDict [(''error'', PStr ''Failed to decode JSON from assistant response'')])
      | Some response_json \<Rightarrow>
          if \<not> truthy response_json
          then Inr (PDict [(''error'', PStr ''Invalid response schema'')])
          else (case py_in ''books'' response_json of
                  Inl e \<Rightarrow> Inl e
                | Inr True \<Rightarrow> py_getitem response_json ''books''
                | Inr False \<Rightarrow> Inr (PDict [(''error'', PStr ''Invalid response schema'')])))"
  using assms
  by (simp add: clean_text_with_openai_def extract_json_skips split: option.splits)

lemma enrich_each_all_skipped:
  assumes "list_all spec_empty_title books"
  shows "enrich_each post books acc tr = (tr, Inr (Inr acc))"
proof -
  from assms have "\<forall>b\<in>set books. title_missing b"
    by (simp add: list_all_iff spec_empty_title_missing)
  from enrich_each_skip [OF this, of post "[]" acc tr] show ?thesis
    by simp
qed

lemma empty_titled_not_error_string:
  "list_all spec_empty_title books \<Longrightarrow> PStr ''error'' \<notin> set books"
  by (auto simp add: list_all_iff)

lemma snd_loop_result:
  "snd (case r of
          (tr, Inl e) \<Rightarrow> (tr, Inl e)
        | (tr, Inr (Inl resp)) \<Rightarrow> (tr, Inr resp)
        | (tr, Inr (Inr all_books_info)) \<Rightarrow> (tr, Inr (200, body all_books_info)))
     = (case snd r of
          Inl e \<Rightarrow> Inl e
        | Inr (Inl resp) \<Rightarrow> Inr resp
        | Inr (Inr all_books_info) \<Rightarrow> Inr (200, body all_books_info))"
  by (cases r) (simp split: sum.splits)

lemma snd_process_image_normalized:
  assumes "files req ''file'' = Some upfile" and "filename upfile \<noteq> ''''"
    and "ocr_image ocr_model (fs(temp_name \<mapsto> data upfile)) temp_name = raw_text"
    and "raw_text \<noteq> ''''"
    and "clean_text_with_openai assistant loads raw_text = Inr cleaned_books"
  shows "snd (process_image ocr_model assistant loads post fs temp_name req) =
     (case py_in ''error'' cleaned_books of
        Inl e \<Rightarrow> Inl e
      | Inr True \<Rightarrow>
          (case py_getitem cleaned_books ''error'' of
             Inl e \<Rightarrow> Inl e
           | Inr detail \<Rightarrow> Inr (500, PDict [(''error'', detail)]))
      | Inr False \<Rightarrow>
          (case py_iter cleaned_books of
             Inl e \<Rightarrow> Inl e
           | Inr books \<Rightarrow>
               (case snd (enrich_each post books [] []) of
                  Inl e \<Rightarrow> Inl e
                | Inr (Inl resp) \<Rightarrow> Inr resp
                | Inr (Inr all_books_info) \<Rightarrow>
                    Inr (200, PDict [(''extracted_text'', PStr raw_text),
                                     (''books_info'', PList all_books_info)]))))"
proof -
  have tr: "snd (enrich_each post books [] [OcrCall temp_name, NormalizeCall raw_text])
              = snd (enrich_each post books [] [])" for books
    by (rule enrich_each_snd_trace)
  show ?thesis
    unfolding process_image_normalized [OF assms]
    by (simp add: snd_loop_result tr split: sum.splits bool.splits)
qed

text \<open>The example upload passes the two checks and the OCR example reads three words.\<close>

lemma example_upload:
  "files example_request ''file'' = Some \<lparr>filename = ''shelf.jpg'', data = ''pixels''\<rparr>"
  "filename \<lparr>filename = ''shelf.jpg'', data = ''pixels''\<rparr> \<noteq> ''''"
  by (simp_all add: example_defs)

lemma example_ocr:
  "ocr_image ocr_reads_dune
     (fs(temp_name \<mapsto> data \<lparr>filename = ''shelf.jpg'', data = ''pixels''\<rparr>)) temp_name
     = ''Dune Frank Herbert''"
  "''Dune Frank Herbert'' \<noteq> ''''"
  by (simp_all add: source_defs example_defs)

text \<open>A 200 answer comes from the end of the handler: every stage before it has passed.\<close>

lemma process_image_200_stages:
  assumes "process_image ocr_model assistant loads post fs temp_name req = (tr, Inr (200, body))"
  shows "\<exists>upfile cleaned_books.
           files req ''file'' = Some upfile \<and> filename upfile \<noteq> ''''
           \<and> ocr_image ocr_model (fs(temp_name \<mapsto> data upfile)) temp_name \<noteq> ''''
           \<and> clean_text_with_openai assistant loads
                 (ocr_image ocr_model (fs(temp_name \<mapsto> data upfile)) temp_name)
               = Inr cleaned_books"
  using assms
  by (simp add: process_image_def Let_def split: option.splits if_splits sum.splits)

lemma records_of_200:
  assumes "files req ''file'' = Some upfile" and "filename upfile \<noteq> ''''"
    and "ocr_image ocr_model (fs(temp_name \<mapsto> data upfile)) temp_name = raw_text"
    and "raw_text \<noteq> ''''"
    and "clean_text_with_openai assistant loads raw_text = Inr cleaned_books"
    and ok: "process_image ocr_model assistant loads post fs temp_name req
               = (tr, Inr (200, body))"
  shows "\<exists>books records.
           py_iter cleaned_books = Inr books
           \<and> body = PDict [(''extracted_text'', PStr raw_text),
                           (''books_info'', PList records)]
           \<and> length records \<le> length (filter spec_nonempty_title books)
           \<and> map (\<lambda>r. py_get r ''extracted_title'' PNone) records
               = map (\<lambda>b. py_get b ''title'' (PStr '''')) (filter title_kept books)"
proof -
  note unfolded = ok [unfolded process_image_normalized [OF assms(1-5)]]
  from unfolded obtain books where it: "py_iter cleaned_books = Inr books"
    and no_err: "py_in ''error'' cleaned_books = Inr False"
    by (auto split: sum.splits bool.splits)
  obtain tr' r where loop:
    "enrich_each post books [] [OcrCall temp_name, NormalizeCall raw_text] = (tr', r)"
    by (cases "enrich_each post books [] [OcrCall temp_name, NormalizeCall raw_text]")
  from unfolded it no_err loop have "\<exists>records. r = Inr (Inr records)
      \<and> body = PDict [(''extracted_text'', PStr raw_text), (''books_info'', PList records)]"
    by (auto split: sum.splits dest: enrich_each_early_status)
  then obtain records where r: "r = Inr (Inr records)"
    and body: "body = PDict [(''extracted_text'', PStr raw_text), (''books_info'', PList records)]"
    by blast
  from enrich_each_done [OF loop [unfolded r]]
  have titles: "map (\<lambda>r. py_get r ''extracted_title'' PNone) records
                   = map (\<lambda>b. py_get b ''title'' (PStr '''')) (filter title_kept books)"
    by simp
  then have "length records = length (filter title_kept books)"
    by (metis length_map)
  also have "\<dots> \<le> length (filter spec_nonempty_title books)"
    by (rule length_filter_mono) (rule title_kept_nonempty)
  finally have "length records \<le> length (filter spec_nonempty_title books)" .
  with it body titles show ?thesis
    by blast
qed

section \<open>The claims\<close>

subsection \<open>C1: a failed lookup aborts the request\<close>

text \<open>
  Claim C1. When the first catalog lookup the loop attempts fails (the candidates before
  it have no title, and \<^verbatim>\<open>query_hardcover_graphql\<close> returns \<^verbatim>\<open>{"error": detail}\<close>, as it does
  for a transport failure and for GraphQL errors), the handler makes no further call and
  answers 500 with the body \<^verbatim>\<open>{"error": detail}\<close>: the body has no \<^verbatim>\<open>books_info\<close>.
\<close>

theorem failed_lookup_aborts_request:
  assumes "files req ''file'' = Some upfile" and "filename upfile \<noteq> ''''"
    and "ocr_image ocr_model (fs(temp_name \<mapsto> data upfile)) temp_name = raw_text"
    and "raw_text \<noteq> ''''"
    and "clean_text_with_openai assistant loads raw_text = Inr cleaned_books"
    and "py_in ''error'' cleaned_books = Inr False"
    and "py_iter cleaned_books = Inr (pre @ book # rest)"
    and "\<forall>b\<in>set pre. title_missing b"
    and "py_get book ''title'' (PStr '''') = Inr title" and "truthy title"
    and "query_hardcover_graphql post title = Inr (PDict [(''error'', detail)])"
  shows "process_image ocr_model assistant loads post fs temp_name req
           = ([OcrCall temp_name, NormalizeCall raw_text, CatalogCall title],
              Inr (500, PDict [(''error'', detail)]))
         \<and> py_in ''books_info'' (PDict [(''error'', detail)]) = Inr False"
proof -
  have "enrich_each post (pre @ book # rest) [] [OcrCall temp_name, NormalizeCall raw_text]
          = ([OcrCall temp_name, NormalizeCall raw_text] @ [CatalogCall title],
             Inr (Inl (500, PDict [(''error'', detail)])))"
    using assms(8-11) by (simp only: enrich_each_skip enrich_each_failure)
  with assms(1-7) show ?thesis
    by (simp add: process_image_normalized)
qed

theorem failed_lookup_aborts_request_witness:
  "process_image ocr_reads_dune (assistant_replying reply_dune) example_loads
      catalog_unreachable Map.empty ''/tmp/tmpa1'' example_request
     = ([OcrCall ''/tmp/tmpa1'', NormalizeCall ''Dune Frank Herbert'',
         CatalogCall (PStr ''Dune'')],
        Inr (500, PDict [(''error'', PStr ''connection refused'')]))
   \<and> process_image ocr_reads_dune (assistant_replying reply_dune) example_loads
      catalog_graphql_errors Map.empty ''/tmp/tmpa1'' example_request
     = ([OcrCall ''/tmp/tmpa1'', NormalizeCall ''Dune Frank Herbert'',
         CatalogCall (PStr ''Dune'')],
        Inr (500, PDict [(''error'',
               PList [PDict [(''message'', PStr ''field not found'')]])]))"
proof -
  let ?empty = "PDict [(''title'', PStr ''''), (''author'', PStr ''X'')]"
  let ?dune = "PDict [(''title'', PStr ''Dune''), (''author'', PStr ''Frank Herbert'')]"
  have norm: "clean_text_with_openai (assistant_replying reply_dune) example_loads
                ''Dune Frank Herbert'' = Inr (PList [?empty, ?dune])"
    by (simp add: source_defs example_defs)
  have cands: "py_in ''error'' (PList [?empty, ?dune]) = Inr False"
    "py_iter (PList [?empty, ?dune]) = Inr ([?empty] @ ?dune # [])"
    "\<forall>b\<in>set [?empty]. title_missing b"
    "py_get ?dune ''title'' (PStr '''') = Inr (PStr ''Dune'')" "truthy (PStr ''Dune'')"
    by (simp_all add: title_missing_def)
  have fail1: "query_hardcover_graphql catalog_unreachable (PStr ''Dune'')
                 = Inr (PDict [(''error'', PStr ''connection refused'')])"
    by (simp add: source_defs example_defs)
  have fail2: "query_hardcover_graphql catalog_graphql_errors (PStr ''Dune'')
                 = Inr (PDict [(''error'', PList [PDict [(''message'', PStr ''field not found'')]])])"
    by (simp add: source_defs example_defs)
  from failed_lookup_aborts_request [OF example_upload example_ocr norm cands fail1]
    failed_lookup_aborts_request [OF example_upload example_ocr norm cands fail2]
  show ?thesis by blast
qed

subsection \<open>C2: an exception of the OCR backend\<close>

text \<open>
  Claim C2. The claim asks for a 500 answer whenever the OCR backend raises. The source
  returns \<^verbatim>\<open>str(e)\<close> from \<^verbatim>\<open>ocr_image\<close>, so a backend raising \<^verbatim>\<open>Exception("boom")\<close> makes
  \<^verbatim>\<open>boom\<close> the extracted text: it is sent to the normalizer and comes back in a 200 answer.
\<close>

theorem ocr_exception_message_becomes_text:
  "ocr_image ocr_raises_boom [''/tmp/tmpa1'' \<mapsto> ''pixels''] ''/tmp/tmpa1'' = ''boom''
   \<and> process_image ocr_raises_boom (assistant_replying reply_no_books) example_loads
         catalog_no_match Map.empty ''/tmp/tmpa1'' example_request
    = ([OcrCall ''/tmp/tmpa1'', NormalizeCall ''boom''],
       Inr (200, PDict [(''extracted_text'', PStr ''boom''), (''books_info'', PList [])]))"
  by (simp add: source_defs example_defs)

subsection \<open>C3: what the normalizer checks\<close>

text \<open>
  Claim C3, as amended. The normalizer parses the first text part of the selected
  message. A parse failure yields \<^verbatim>\<open>{"error": "Failed to decode JSON from assistant response"}\<close>.
  When the parsed value is a JSON object, an object without the key \<^verbatim>\<open>books\<close> yields
  \<^verbatim>\<open>{"error": "Invalid response schema"}\<close> and an object with the key yields the value
  stored under \<^verbatim>\<open>books\<close>, whatever that value is.
\<close>

theorem normalizer_parses_first_text_part:
  assumes "assistant raw_text = Inr messages"
    and "find (\<lambda>m. role m = ''assistant'') messages = Some m"
    and "content m = skipped @ TextPart v # rest"
    and "\<forall>p\<in>set skipped. p = NonTextPart"
  shows "(loads v = None \<longrightarrow>
            clean_text_with_openai assistant loads raw_text
              = Inr (PDict [(''error'', PStr ''Failed to decode JSON from assistant response'')]))
       \<and> (loads v = Some (PDict kvs) \<and> map_of kvs ''books'' = None \<longrightarrow>
            clean_text_with_openai assistant loads raw_text
              = Inr (PDict [(''error'', PStr ''Invalid response schema'')]))
       \<and> (loads v = Some (PDict kvs) \<and> map_of kvs ''books'' = Some books \<longrightarrow>
            clean_text_with_openai assistant loads raw_text = Inr books)"
proof (intro conjI impI)
  assume "loads v = None"
  then show "clean_text_with_openai assistant loads raw_text
              = Inr (PDict [(''error'', PStr ''Failed to decode JSON from assistant response'')])"
    by (simp add: clean_text_first_text_part
          [where assistant = assistant and raw_text = raw_text, OF assms])
next
  assume "loads v = Some (PDict kvs) \<and> map_of kvs ''books'' = None"
  moreover from this have "''books'' \<notin> fst ` set kvs"
    by (auto dest: map_of_None_not_key)
  ultimately show "clean_text_with_openai assistant loads raw_text
              = Inr (PDict [(''error'', PStr ''Invalid response schema'')])"
    by (simp add: clean_text_first_text_part
          [where assistant = assistant and raw_text = raw_text, OF assms])
next
  assume a: "loads v = Some (PDict kvs) \<and> map_of kvs ''books'' = Some books"
  then have "kvs \<noteq> []" by auto
  moreover from a have "''books'' \<in> fst ` set kvs"
    by (auto dest: map_of_Some_key)
  ultimately show "clean_text_with_openai assistant loads raw_text = Inr books"
    using a
    by (simp add: clean_text_first_text_part
          [where assistant = assistant and raw_text = raw_text, OF assms])
qed

theorem normalizer_parses_first_text_part_witness:
  "clean_text_with_openai (assistant_replying ''not json'') example_loads ''Dune''
     = Inr (PDict [(''error'', PStr ''Failed to decode JSON from assistant response'')])
   \<and> clean_text_with_openai (assistant_replying reply_empty_object) example_loads ''Dune''
     = Inr (PDict [(''error'', PStr ''Invalid response schema'')])
   \<and> clean_text_with_openai (assistant_replying reply_no_books) example_loads ''Dune''
     = Inr (PList [])"
proof -
  have th: "assistant_replying r ''Dune''
          = Inr [\<lparr>role = ''assistant'', created_at = 2, content = [TextPart r]\<rparr>,
                 \<lparr>role = ''user'', created_at = 1, content = [TextPart ''Dune'']\<rparr>]"
       "find (\<lambda>m. role m = ''assistant'')
            [\<lparr>role = ''assistant'', created_at = 2, content = [TextPart r]\<rparr>,
             \<lparr>role = ''user'', created_at = 1, content = [TextPart ''Dune'']\<rparr>]
          = Some \<lparr>role = ''assistant'', created_at = 2, content = [TextPart r]\<rparr>"
       "content \<lparr>role = ''assistant'', created_at = 2, content = [TextPart r]\<rparr>
          = [] @ TextPart r # []"
       "\<forall>p\<in>set []. p = NonTextPart" for r
    by (simp_all add: example_defs)
  have l1: "example_loads ''not json'' = None"
    by (simp add: example_defs)
  have l2: "example_loads reply_empty_object = Some (PDict []) \<and> map_of [] ''books'' = None"
    by (simp add: example_defs)
  have l3: "example_loads reply_no_books = Some (PDict [(''books'', PList [])])
          \<and> map_of [(''books'', PList [])] ''books'' = Some (PList [])"
    by (simp add: example_defs)
  from l1 l2 l3
    normalizer_parses_first_text_part [where assistant = "assistant_replying ''not json''"
      and raw_text = "''Dune''" and loads = example_loads, OF th]
    normalizer_parses_first_text_part [where assistant = "assistant_replying reply_empty_object"
      and raw_text = "''Dune''" and loads = example_loads and kvs = "[]", OF th]
    normalizer_parses_first_text_part [where assistant = "assistant_replying reply_no_books"
      and raw_text = "''Dune''" and loads = example_loads
      and kvs = "[(''books'', PList [])]" and books = "PList []", OF th]
  show ?thesis by blast
qed

text \<open>
  The claim as stated fails: for the reply \<^verbatim>\<open>{"books": 5}\<close> the normalizer returns
  the number 5 as its candidate list, and for the reply \<^verbatim>\<open>5\<close>, valid JSON without a
  \<^verbatim>\<open>books\<close> key, it raises TypeError instead of returning the schema error.
\<close>

theorem books_value_not_validated:
  "clean_text_with_openai (assistant_replying reply_books_number) example_loads ''Dune''
     = Inr (PInt 5)
   \<and> \<not> spec_candidate_list (PInt 5)
   \<and> clean_text_with_openai (assistant_replying reply_number) example_loads ''Dune''
     = Inl TypeError"
  by (simp add: source_defs example_defs)

subsection \<open>C4: candidates without title\<close>

text \<open>
  Claim C4. Every 200 answer has the body \<^verbatim>\<open>{"extracted_text": ..., "books_info": records}\<close>
  where the records are at most as many as the normalizer's candidates with a non-empty
  title, and their titles are the titles of the candidates the loop keeps, in the
  normalizer's order. A list of candidates that all have an empty or missing title is
  answered 200 with \<^verbatim>\<open>books_info\<close> empty and without catalog call. The loop gives the same
  result and makes the same calls when the candidates with an empty or missing title are
  removed from the list.
\<close>

theorem empty_titles_dropped:
  "(process_image ocr_model assistant loads post fs temp_name req = (tr, Inr (200, body)) \<longrightarrow>
      (\<exists>upfile raw_text cleaned_books books records.
         files req ''file'' = Some upfile
         \<and> ocr_image ocr_model (fs(temp_name \<mapsto> data upfile)) temp_name = raw_text
         \<and> clean_text_with_openai assistant loads raw_text = Inr cleaned_books
         \<and> py_iter cleaned_books = Inr books
         \<and> body = PDict [(''extracted_text'', PStr raw_text),
                         (''books_info'', PList records)]
         \<and> length records \<le> length (filter spec_nonempty_title books)
         \<and> map (\<lambda>r. py_get r ''extracted_title'' PNone) records
             = map (\<lambda>b. py_get b ''title'' (PStr '''')) (filter title_kept books)))
   \<and> (files req ''file'' = Some uploaded \<and> filename uploaded \<noteq> ''''
        \<and> ocr_image ocr_model (fs(temp_name \<mapsto> data uploaded)) temp_name = extracted
        \<and> extracted \<noteq> ''''
        \<and> clean_text_with_openai assistant loads extracted = Inr (PList candidates)
        \<and> list_all spec_empty_title candidates \<longrightarrow>
      process_image ocr_model assistant loads post fs temp_name req
        = ([OcrCall temp_name, NormalizeCall extracted],
           Inr (200, PDict [(''extracted_text'', PStr extracted),
                            (''books_info'', PList [])])))
   \<and> enrich_each post candidates acc tr0
        = enrich_each post (filter (\<lambda>b. \<not> spec_empty_title b) candidates) acc tr0"
proof (intro conjI impI)
  assume ok: "process_image ocr_model assistant loads post fs temp_name req
                = (tr, Inr (200, body))"
  from process_image_200_stages [OF ok] obtain upfile cleaned_books where stages:
    "files req ''file'' = Some upfile" "filename upfile \<noteq> ''''"
    "ocr_image ocr_model (fs(temp_name \<mapsto> data upfile)) temp_name \<noteq> ''''"
    "clean_text_with_openai assistant loads
       (ocr_image ocr_model (fs(temp_name \<mapsto> data upfile)) temp_name) = Inr cleaned_books"
    by blast
  from records_of_200 [OF stages(1,2) refl stages(3,4) ok] stages(1,4)
  show "\<exists>upfile raw_text cleaned_books books records.
         files req ''file'' = Some upfile
         \<and> ocr_image ocr_model (fs(temp_name \<mapsto> data upfile)) temp_name = raw_text
         \<and> clean_text_with_openai assistant loads raw_text = Inr cleaned_books
         \<and> py_iter cleaned_books = Inr books
         \<and> body = PDict [(''extracted_text'', PStr raw_text),
                         (''books_info'', PList records)]
         \<and> length records \<le> length (filter spec_nonempty_title books)
         \<and> map (\<lambda>r. py_get r ''extracted_title'' PNone) records
             = map (\<lambda>b. py_get b ''title'' (PStr '''')) (filter title_kept books)"
    by blast
next
  assume a: "files req ''file'' = Some uploaded \<and> filename uploaded \<noteq> ''''
        \<and> ocr_image ocr_model (fs(temp_name \<mapsto> data uploaded)) temp_name = extracted
        \<and> extracted \<noteq> ''''
        \<and> clean_text_with_openai assistant loads extracted = Inr (PList candidates)
        \<and> list_all spec_empty_title candidates"
  then have "PStr ''error'' \<notin> set candidates"
    by (simp add: empty_titled_not_error_string)
  with a show "process_image ocr_model assistant loads post fs temp_name req
        = ([OcrCall temp_name, NormalizeCall extracted],
           Inr (200, PDict [(''extracted_text'', PStr extracted),
                            (''books_info'', PList [])]))"
    by (simp add: process_image_normalized enrich_each_all_skipped del: enrich_each.simps)
next
  show "enrich_each post candidates acc tr0
            = enrich_each post (filter (\<lambda>b. \<not> spec_empty_title b) candidates) acc tr0"
    by (rule enrich_each_drops_empty)
qed

theorem empty_titles_dropped_witness:
  "process_image ocr_reads_dune (assistant_replying reply_empty_title) example_loads
      catalog_no_match Map.empty ''/tmp/tmpa1'' example_request
     = ([OcrCall ''/tmp/tmpa1'', NormalizeCall ''Dune Frank Herbert''],
        Inr (200, PDict [(''extracted_text'', PStr ''Dune Frank Herbert''),
                         (''books_info'', PList [])]))
   \<and> (\<exists>upfile raw_text cleaned_books books records.
         files example_request ''file'' = Some upfile
         \<and> ocr_image ocr_reads_dune (Map.empty(''/tmp/tmpa1'' \<mapsto> data upfile)) ''/tmp/tmpa1''
             = raw_text
         \<and> clean_text_with_openai (assistant_replying reply_dune) example_loads raw_text
             = Inr cleaned_books
         \<and> py_iter cleaned_books = Inr books
         \<and> PDict [(''extracted_text'', PStr ''Dune Frank Herbert''),
                  (''books_info'',
                   PList [PDict [(''extracted_title'', PStr ''Dune''),
                                 (''extracted_author'', PStr ''Frank Herbert''),
                                 (''hardcover_books'', PList [])]])]
           = PDict [(''extracted_text'', PStr raw_text), (''books_info'', PList records)]
         \<and> length records \<le> length (filter spec_nonempty_title books)
         \<and> map (\<lambda>r. py_get r ''extracted_title'' PNone) records
             = map (\<lambda>b. py_get b ''title'' (PStr '''')) (filter title_kept books))"
proof
  let ?empty = "PDict [(''title'', PStr ''''), (''author'', PStr ''X'')]"
  have norm: "clean_text_with_openai (assistant_replying reply_empty_title) example_loads
                ''Dune Frank Herbert'' = Inr (PList [?empty])"
    by (simp add: source_defs example_defs)
  have all_empty: "list_all spec_empty_title [?empty]"
    by simp
  from example_upload example_ocr(2) norm all_empty
    example_ocr(1) [where fs = Map.empty and temp_name = "''/tmp/tmpa1''"]
    empty_titles_dropped [where req = example_request and ocr_model = ocr_reads_dune
      and assistant = "assistant_replying reply_empty_title" and loads = example_loads
      and post = catalog_no_match and fs = Map.empty and temp_name = "''/tmp/tmpa1''"
      and uploaded = "\<lparr>filename = ''shelf.jpg'', data = ''pixels''\<rparr>"
      and extracted = "''Dune Frank Herbert''" and candidates = "[?empty]",
      THEN conjunct2, THEN conjunct1]
  show "process_image ocr_reads_dune (assistant_replying reply_empty_title) example_loads
      catalog_no_match Map.empty ''/tmp/tmpa1'' example_request
     = ([OcrCall ''/tmp/tmpa1'', NormalizeCall ''Dune Frank Herbert''],
        Inr (200, PDict [(''extracted_text'', PStr ''Dune Frank Herbert''),
                         (''books_info'', PList [])]))"
    by blast
  have run: "process_image ocr_reads_dune (assistant_replying reply_dune) example_loads
      catalog_no_match Map.empty ''/tmp/tmpa1'' example_request
     = ([OcrCall ''/tmp/tmpa1'', NormalizeCall ''Dune Frank Herbert'',
         CatalogCall (PStr ''Dune'')],
        Inr (200, PDict [(''extracted_text'', PStr ''Dune Frank Herbert''),
                  (''books_info'',
                   PList [PDict [(''extracted_title'', PStr ''Dune''),
                                 (''extracted_author'', PStr ''Frank Herbert''),
                                 (''hardcover_books'', PList [])]])]))"
    by (simp add: source_defs example_defs)
  from empty_titles_dropped [THEN conjunct1, rule_format, OF run]
  show "\<exists>upfile raw_text cleaned_books books records.
         files example_request ''file'' = Some upfile
         \<and> ocr_image ocr_reads_dune (Map.empty(''/tmp/tmpa1'' \<mapsto> data upfile)) ''/tmp/tmpa1''
             = raw_text
         \<and> clean_text_with_openai (assistant_replying reply_dune) example_loads raw_text
             = Inr cleaned_books
         \<and> py_iter cleaned_books = Inr books
         \<and> PDict [(''extracted_text'', PStr ''Dune Frank Herbert''),
                  (''books_info'',
                   PList [PDict [(''extracted_title'', PStr ''Dune''),
                                 (''extracted_author'', PStr ''Frank Herbert''),
                                 (''hardcover_books'', PList [])]])]
           = PDict [(''extracted_text'', PStr raw_text), (''books_info'', PList records)]
         \<and> length records \<le> length (filter spec_nonempty_title books)
         \<and> map (\<lambda>r. py_get r ''extracted_title'' PNone) records
             = map (\<lambda>b. py_get b ''title'' (PStr '''')) (filter title_kept books)" .
qed

subsection \<open>C5: the upload checks\<close>

text \<open>
  Claim C5. A request without the form field \<^verbatim>\<open>file\<close> is answered 400 with
  \<^verbatim>\<open>{"error": "No file uploaded"}\<close>, a request whose file has an empty filename is answered
  400 with \<^verbatim>\<open>{"error": "No selected file"}\<close>; in both cases the list of calls to the OCR,
  normalizer and catalog stages is empty.
\<close>

theorem upload_checks:
  "(files req ''file'' = None \<longrightarrow>
      process_image ocr_model assistant loads post fs temp_name req
        = ([], Inr (400, PDict [(''error'', PStr ''No file uploaded'')])))
   \<and> (files req ''file'' = Some upfile \<and> filename upfile = '''' \<longrightarrow>
      process_image ocr_model assistant loads post fs temp_name req
        = ([], Inr (400, PDict [(''error'', PStr ''No selected file'')])))"
  by (simp add: process_image_def)

theorem upload_checks_witness:
  "process_image ocr_reads_dune (assistant_replying reply_dune) example_loads
      catalog_no_match Map.empty ''/tmp/tmpa1'' request_without_file
     = ([], Inr (400, PDict [(''error'', PStr ''No file uploaded'')]))
   \<and> process_image ocr_reads_dune (assistant_replying reply_dune) example_loads
      catalog_no_match Map.empty ''/tmp/tmpa1'' request_empty_filename
     = ([], Inr (400, PDict [(''error'', PStr ''No selected file'')]))"
proof
  have "files request_without_file ''file'' = None"
    by (simp add: example_defs)
  with upload_checks [where req = request_without_file]
  show "process_image ocr_reads_dune (assistant_replying reply_dune) example_loads
      catalog_no_match Map.empty ''/tmp/tmpa1'' request_without_file
     = ([], Inr (400, PDict [(''error'', PStr ''No file uploaded'')]))"
    by blast
  have "files request_empty_filename ''file'' = Some \<lparr>filename = '''', data = ''pixels''\<rparr>
          \<and> filename \<lparr>filename = '''', data = ''pixels''\<rparr> = ''''"
    by (simp add: example_defs)
  with upload_checks [where req = request_empty_filename
      and upfile = "\<lparr>filename = '''', data = ''pixels''\<rparr>"]
  show "process_image ocr_reads_dune (assistant_replying reply_dune) example_loads
      catalog_no_match Map.empty ''/tmp/tmpa1'' request_empty_filename
     = ([], Inr (400, PDict [(''error'', PStr ''No selected file'')]))"
    by blast
qed

subsection \<open>C6: the results of a lookup\<close>

text \<open>
  Claim C6, as amended. A transport-level failure or an HTTP status from 400 to 599
  yields \<^verbatim>\<open>{"error": message}\<close> with the failure's message as a string. A response with any
  other status whose body is a JSON object with the key \<^verbatim>\<open>errors\<close> yields
  \<^verbatim>\<open>{"error": errors}\<close>, which differs from every transport result when \<^verbatim>\<open>errors\<close> is an
  array. A response with any other status whose body is a JSON object without the key
  \<^verbatim>\<open>errors\<close> yields the value under \<^verbatim>\<open>data\<close>, or \<^verbatim>\<open>{}\<close> when there is none.
\<close>

theorem lookup_results:
  "(post similar_title = Inl (RequestException msg) \<longrightarrow>
      query_hardcover_graphql post similar_title = Inr (PDict [(''error'', PStr msg)]))
   \<and> (post similar_title = Inr response
        \<and> 400 \<le> status_code response \<and> status_code response < 600 \<longrightarrow>
      query_hardcover_graphql post similar_title
        = Inr (PDict [(''error'', PStr (http_error_text response))]))
   \<and> (post similar_title = Inr response
        \<and> \<not> (400 \<le> status_code response \<and> status_code response < 600)
        \<and> json_body response = Inr (PDict kvs) \<and> map_of kvs ''errors'' = Some errs \<longrightarrow>
      query_hardcover_graphql post similar_title = Inr (PDict [(''error'', errs)])
      \<and> (case errs of
            PList es \<Rightarrow> PDict [(''error'', errs)] \<noteq> PDict [(''error'', PStr msg)]
          | _ \<Rightarrow> True))
   \<and> (post similar_title = Inr response
        \<and> \<not> (400 \<le> status_code response \<and> status_code response < 600)
        \<and> json_body response = Inr (PDict kvs) \<and> map_of kvs ''errors'' = None \<longrightarrow>
      query_hardcover_graphql post similar_title
        = Inr (case map_of kvs ''data'' of None \<Rightarrow> PDict [] | Some d \<Rightarrow> d))"
proof (intro conjI impI)
  assume "post similar_title = Inl (RequestException msg)"
  then show "query_hardcover_graphql post similar_title = Inr (PDict [(''error'', PStr msg)])"
    by (simp add: query_hardcover_graphql_def query_try_def)
next
  assume "post similar_title = Inr response
        \<and> 400 \<le> status_code response \<and> status_code response < 600"
  then show "query_hardcover_graphql post similar_title
        = Inr (PDict [(''error'', PStr (http_error_text response))])"
    by (simp add: query_hardcover_graphql_def query_try_def raise_for_status_def)
next
  assume a: "post similar_title = Inr response
        \<and> \<not> (400 \<le> status_code response \<and> status_code response < 600)
        \<and> json_body response = Inr (PDict kvs) \<and> map_of kvs ''errors'' = Some errs"
  then have "''errors'' \<in> fst ` set kvs"
    by (auto dest: map_of_Some_key)
  with a show "query_hardcover_graphql post similar_title = Inr (PDict [(''error'', errs)])"
    by (auto simp add: query_hardcover_graphql_def query_try_def raise_for_status_def)
  show "case errs of
          PList es \<Rightarrow> PDict [(''error'', errs)] \<noteq> PDict [(''error'', PStr msg)]
        | _ \<Rightarrow> True"
    by (cases errs) simp_all
next
  assume a: "post similar_title = Inr response
        \<and> \<not> (400 \<le> status_code response \<and> status_code response < 600)
        \<and> json_body response = Inr (PDict kvs) \<and> map_of kvs ''errors'' = None"
  then have "''errors'' \<notin> fst ` set kvs"
    by (auto dest: map_of_None_not_key)
  with a show "query_hardcover_graphql post similar_title
        = Inr (case map_of kvs ''data'' of None \<Rightarrow> PDict [] | Some d \<Rightarrow> d)"
    by (auto simp add: query_hardcover_graphql_def query_try_def raise_for_status_def
          split: option.splits)
qed

theorem lookup_results_witness:
  "query_hardcover_graphql catalog_unreachable (PStr ''Dune'')
     = Inr (PDict [(''error'', PStr ''connection refused'')])
   \<and> query_hardcover_graphql catalog_not_found (PStr ''Dune'')
     = Inr (PDict [(''error'',
         PStr ''404 Client Error: Not Found for url: https://api.hardcover.app/v1/graphql'')])
   \<and> query_hardcover_graphql catalog_graphql_errors (PStr ''Dune'')
     = Inr (PDict [(''error'', PList [PDict [(''message'', PStr ''field not found'')]])])
   \<and> query_hardcover_graphql catalog_no_match (PStr ''Dune'')
     = Inr (PDict [(''books'', PList [])])"
proof -
  let ?not_found = "\<lparr>status_code = 404,
      http_error_text = ''404 Client Error: Not Found for url: https://api.hardcover.app/v1/graphql'',
      json_body = Inl (RequestException ''Expecting value: line 1 column 1 (char 0)'')\<rparr>"
  let ?errors = "[(''errors'', PList [PDict [(''message'', PStr ''field not found'')]])]"
  let ?with_errors = "\<lparr>status_code = 200, http_error_text = '''',
      json_body = Inr (PDict ?errors)\<rparr>"
  let ?no_match = "[(''data'', PDict [(''books'', PList [])])]"
  let ?with_data = "\<lparr>status_code = 200, http_error_text = '''',
      json_body = Inr (PDict ?no_match)\<rparr>"
  have h1: "catalog_unreachable (PStr ''Dune'') = Inl (RequestException ''connection refused'')"
    by (simp add: example_defs)
  have h2: "catalog_not_found (PStr ''Dune'') = Inr ?not_found
      \<and> 400 \<le> status_code ?not_found \<and> status_code ?not_found < 600"
    by (simp add: example_defs)
  have h3: "catalog_graphql_errors (PStr ''Dune'') = Inr ?with_errors
      \<and> \<not> (400 \<le> status_code ?with_errors \<and> status_code ?with_errors < 600)
      \<and> json_body ?with_errors = Inr (PDict ?errors)
      \<and> map_of ?errors ''errors'' = Some (PList [PDict [(''message'', PStr ''field not found'')]])"
    by (simp add: example_defs)
  have h4: "catalog_no_match (PStr ''Dune'') = Inr ?with_data
      \<and> \<not> (400 \<le> status_code ?with_data \<and> status_code ?with_data < 600)
      \<and> json_body ?with_data = Inr (PDict ?no_match)
      \<and> map_of ?no_match ''errors'' = None"
    by (simp add: example_defs)
  from h1 lookup_results [where post = catalog_unreachable and similar_title = "PStr ''Dune''"
      and msg = "''connection refused''"]
  have r1: "query_hardcover_graphql catalog_unreachable (PStr ''Dune'')
     = Inr (PDict [(''error'', PStr ''connection refused'')])"
    by blast
  from h2 lookup_results [where post = catalog_not_found and similar_title = "PStr ''Dune''"
      and response = ?not_found]
  have r2: "query_hardcover_graphql catalog_not_found (PStr ''Dune'')
     = Inr (PDict [(''error'', PStr (http_error_text ?not_found))])"
    by blast
  from h3 lookup_results [where post = catalog_graphql_errors and similar_title = "PStr ''Dune''"
      and response = ?with_errors and kvs = ?errors
      and errs = "PList [PDict [(''message'', PStr ''field not found'')]]"]
  have r3: "query_hardcover_graphql catalog_graphql_errors (PStr ''Dune'')
     = Inr (PDict [(''error'', PList [PDict [(''message'', PStr ''field not found'')]])])"
    by blast
  from h4 lookup_results [where post = catalog_no_match and similar_title = "PStr ''Dune''"
      and response = ?with_data and kvs = ?no_match]
  have r4: "query_hardcover_graphql catalog_no_match (PStr ''Dune'')
     = Inr (case map_of ?no_match ''data'' of None \<Rightarrow> PDict [] | Some d \<Rightarrow> d)"
    by blast
  from r1 r2 r3 r4 show ?thesis by simp
qed

text \<open>
  The claim as stated fails for a status that is neither 2xx nor an error status of
  \<^verbatim>\<open>raise_for_status\<close>: a response with status 300 and a JSON body is a successful lookup.
  It also fails for a 200 response whose body is a JSON array: the body has no \<^verbatim>\<open>errors\<close>,
  and \<^verbatim>\<open>data.get\<close> raises AttributeError, which the \<^verbatim>\<open>except\<close> clause does not catch.
\<close>

theorem status_300_is_not_an_error:
  "catalog_status_300 (PStr ''Dune'')
     = Inr \<lparr>status_code = 300, http_error_text = '''',
            json_body = Inr (PDict [(''data'', PDict [(''books'', PList [])])])\<rparr>
   \<and> \<not> (200 \<le> (300 :: nat) \<and> (300 :: nat) < 300)
   \<and> query_hardcover_graphql catalog_status_300 (PStr ''Dune'')
       = Inr (PDict [(''books'', PList [])])
   \<and> query_hardcover_graphql catalog_array_body (PStr ''Dune'') = Inl AttributeError"
  by (simp add: source_defs example_defs)

subsection \<open>C7: the message the normalizer reads\<close>

text \<open>
  Claim C7. With the thread's messages listed newest first, let \<open>m\<close> be the first message
  of the listing whose role is \<^verbatim>\<open>assistant\<close>. The normalizer's result is computed from the
  content parts of \<open>m\<close> and of no other message (the first text part is parsed and the
  parsed value is checked for the key \<^verbatim>\<open>books\<close>); in particular, when that text parses to
  a JSON object with the key \<^verbatim>\<open>books\<close>, the result is the value stored there. No assistant
  message of the thread is more recent than \<open>m\<close>. When the thread has no assistant message,
  the normalizer returns \<^verbatim>\<open>{"error": "Assistant response not found"}\<close> and the handler
  answers 500 with that body.
\<close>

theorem newest_assistant_message_selected:
  assumes "files req ''file'' = Some upfile" and "filename upfile \<noteq> ''''"
    and "ocr_image ocr_model (fs(temp_name \<mapsto> data upfile)) temp_name = raw_text"
    and "raw_text \<noteq> ''''"
    and "assistant raw_text = Inr messages"
    and "sorted_wrt (\<lambda>a b. created_at b \<le> created_at a) messages"
  shows "(messages = newer @ m # older \<and> role m = ''assistant''
            \<and> (\<forall>x\<in>set newer. role x \<noteq> ''assistant'') \<longrightarrow>
          clean_text_with_openai assistant loads raw_text
            = (case extract_json loads (content m) of
                 Inl early \<Rightarrow> Inr early
               | Inr response_json \<Rightarrow>
                   if \<not> truthy response_json
                   then Inr (PDict [(''error'', PStr ''Invalid response schema'')])
                   else (case py_in ''books'' response_json of
                           Inl e \<Rightarrow> Inl e
                         | Inr True \<Rightarrow> py_getitem response_json ''books''
                         | Inr False \<Rightarrow>
                             Inr (PDict [(''error'', PStr ''Invalid response schema'')])))
          \<and> (content m = skipped @ TextPart v # rest
                \<and> (\<forall>p\<in>set skipped. p = NonTextPart)
                \<and> loads v = Some (PDict kvs) \<and> map_of kvs ''books'' = Some books \<longrightarrow>
              clean_text_with_openai assistant loads raw_text = Inr books)
          \<and> (\<forall>x\<in>set messages. role x = ''assistant'' \<longrightarrow> created_at x \<le> created_at m))
       \<and> ((\<forall>x\<in>set messages. role x \<noteq> ''assistant'') \<longrightarrow>
          clean_text_with_openai assistant loads raw_text
            = Inr (PDict [(''error'', PStr ''Assistant response not found'')])
          \<and> process_image ocr_model assistant loads post fs temp_name req
            = ([OcrCall temp_name, NormalizeCall raw_text],
               Inr (500, PDict [(''error'', PStr ''Assistant response not found'')])))"
proof (intro conjI impI)
  assume a: "messages = newer @ m # older \<and> role m = ''assistant''
            \<and> (\<forall>x\<in>set newer. role x \<noteq> ''assistant'')"
  then have found: "find (\<lambda>m. role m = ''assistant'') messages = Some m"
    by (simp add: find_first)
  with assms(5) show "clean_text_with_openai assistant loads raw_text
            = (case extract_json loads (content m) of
                 Inl early \<Rightarrow> Inr early
               | Inr response_json \<Rightarrow>
                   if \<not> truthy response_json
                   then Inr (PDict [(''error'', PStr ''Invalid response schema'')])
                   else (case py_in ''books'' response_json of
                           Inl e \<Rightarrow> Inl e
                         | Inr True \<Rightarrow> py_getitem response_json ''books''
                         | Inr False \<Rightarrow>
                             Inr (PDict [(''error'', PStr ''Invalid response schema'')])))"
    by (simp add: clean_text_with_openai_def)
  from a assms(6) have "\<forall>x\<in>set older. created_at x \<le> created_at m"
    by (simp add: sorted_wrt_append)
  with a show "\<forall>x\<in>set messages. role x = ''assistant'' \<longrightarrow> created_at x \<le> created_at m"
    by auto
  assume b: "content m = skipped @ TextPart v # rest
                \<and> (\<forall>p\<in>set skipped. p = NonTextPart)
                \<and> loads v = Some (PDict kvs) \<and> map_of kvs ''books'' = Some books"
  then have c: "content m = skipped @ TextPart v # rest" "\<forall>p\<in>set skipped. p = NonTextPart"
    by simp_all
  from b have "kvs \<noteq> []" by auto
  moreover from b have "''books'' \<in> fst ` set kvs"
    by (auto dest: map_of_Some_key)
  ultimately show "clean_text_with_openai assistant loads raw_text = Inr books"
    using b
    by (simp add: clean_text_first_text_part
          [where assistant = assistant and raw_text = raw_text, OF assms(5) found c])
next
  assume a: "\<forall>x\<in>set messages. role x \<noteq> ''assistant''"
  then have "find (\<lambda>m. role m = ''assistant'') messages = None"
    by (simp add: find_None_iff)
  with assms(5) show c: "clean_text_with_openai assistant loads raw_text
            = Inr (PDict [(''error'', PStr ''Assistant response not found'')])"
    by (simp add: clean_text_with_openai_def)
  show "process_image ocr_model assistant loads post fs temp_name req
            = ([OcrCall temp_name, NormalizeCall raw_text],
               Inr (500, PDict [(''error'', PStr ''Assistant response not found'')]))"
    by (simp add: process_image_normalized [OF assms(1-4) c])
qed

text \<open>
  The witness thread has two assistant messages with different replies: the newest reply
  \<^verbatim>\<open>{"books": []}\<close> gives the empty candidate list, the older reply \<^verbatim>\<open>5\<close> alone would
  raise TypeError.
\<close>

theorem newest_assistant_message_selected_witness:
  "clean_text_with_openai assistant_replying_twice example_loads ''Dune Frank Herbert''
     = Inr (PList [])
   \<and> clean_text_with_openai
        (\<lambda>t. Inr [\<lparr>role = ''assistant'', created_at = 2, content = [TextPart reply_number]\<rparr>])
        example_loads ''Dune Frank Herbert''
     = Inl TypeError
   \<and> process_image ocr_reads_dune assistant_silent example_loads catalog_no_match
       Map.empty ''/tmp/tmpa1'' example_request
     = ([OcrCall ''/tmp/tmpa1'', NormalizeCall ''Dune Frank Herbert''],
        Inr (500, PDict [(''error'', PStr ''Assistant response not found'')]))"
proof (intro conjI)
  let ?newest = "\<lparr>role = ''assistant'', created_at = 3, content = [TextPart reply_no_books]\<rparr>"
  let ?older = "[\<lparr>role = ''assistant'', created_at = 2, content = [TextPart reply_number]\<rparr>,
                 \<lparr>role = ''user'', created_at = 1, content = [TextPart ''Dune Frank Herbert'']\<rparr>]"
  have thread: "assistant_replying_twice ''Dune Frank Herbert'' = Inr (?newest # ?older)"
    "sorted_wrt (\<lambda>a b. created_at b \<le> created_at a) (?newest # ?older)"
    by (simp_all add: example_defs)
  have first: "?newest # ?older = [] @ ?newest # ?older \<and> role ?newest = ''assistant''
      \<and> (\<forall>x\<in>set []. role x \<noteq> ''assistant'')"
    by simp
  have reply: "content ?newest = [] @ TextPart reply_no_books # []
      \<and> (\<forall>p\<in>set []. p = NonTextPart)
      \<and> example_loads reply_no_books = Some (PDict [(''books'', PList [])])
      \<and> map_of [(''books'', PList [])] ''books'' = Some (PList [])"
    by (simp add: example_defs)
  from first reply
    newest_assistant_message_selected [where assistant = assistant_replying_twice
      and loads = example_loads and newer = "[]" and m = ?newest and older = ?older
      and skipped = "[]" and v = reply_no_books and rest = "[]"
      and kvs = "[(''books'', PList [])]" and books = "PList []",
      OF example_upload example_ocr thread]
  show "clean_text_with_openai assistant_replying_twice example_loads ''Dune Frank Herbert''
     = Inr (PList [])"
    by blast
  show "clean_text_with_openai
        (\<lambda>t. Inr [\<lparr>role = ''assistant'', created_at = 2, content = [TextPart reply_number]\<rparr>])
        example_loads ''Dune Frank Herbert''
     = Inl TypeError"
    by (simp add: source_defs example_defs)
  let ?only = "[\<lparr>role = ''user'', created_at = 1, content = [TextPart ''Dune Frank Herbert'']\<rparr>]"
  have silent: "assistant_silent ''Dune Frank Herbert'' = Inr ?only"
    "sorted_wrt (\<lambda>a b. created_at b \<le> created_at a) ?only"
    by (simp_all add: example_defs)
  have none: "\<forall>x\<in>set ?only. role x \<noteq> ''assistant''"
    by simp
  from none
    newest_assistant_message_selected [where assistant = assistant_silent
      and loads = example_loads and post = catalog_no_match,
      OF example_upload example_ocr silent]
  show "process_image ocr_reads_dune assistant_silent example_loads catalog_no_match
       Map.empty ''/tmp/tmpa1'' example_request
     = ([OcrCall ''/tmp/tmpa1'', NormalizeCall ''Dune Frank Herbert''],
        Inr (500, PDict [(''error'', PStr ''Assistant response not found'')]))"
    by blast
qed

subsection \<open>C8: the extracted text\<close>

text \<open>
  Claim C8. On a backend result (lines of detections \<^verbatim>\<open>[box, (text, confidence)]\<close>) the
  extractor returns the recognized texts, in order of detection, joined by single spaces
  and stripped of surrounding whitespace; boxes and confidences do not occur in it.
\<close>

theorem ocr_image_joins_texts:
  assumes "ocr_model image_path fs = Inr result"
  shows "ocr_image ocr_model fs image_path
           = strip (join_with '' '' (map (\<lambda>w. fst (snd w)) (concat result)))"
proof -
  define texts where "texts = map (\<lambda>w. fst (snd w)) (concat result)"
  have loops: "ocr_image ocr_model fs image_path = strip (concat (map (\<lambda>t. t @ '' '') texts))"
    using assms by (simp add: ocr_image_def outer_loop_concat texts_def comp_def)
  show ?thesis
  proof (cases "texts = []")
    case True
    with loops show ?thesis by (simp add: texts_def [symmetric])
  next
    case False
    with loops show ?thesis
      by (simp add: concat_sep_join strip_trailing_space texts_def [symmetric])
  qed
qed

theorem ocr_image_joins_texts_witness:
  "ocr_image ocr_reads_dune [''/tmp/tmpa1'' \<mapsto> ''pixels''] ''/tmp/tmpa1'' = ''Dune Frank Herbert''"
proof -
  have "ocr_reads_dune ''/tmp/tmpa1'' [''/tmp/tmpa1'' \<mapsto> ''pixels'']
          = Inr [[(0, (''Dune'', 99))], [(1, (''Frank'', 98)), (2, (''Herbert'', 97))]]"
    by (simp add: example_defs)
  from ocr_image_joins_texts [where ocr_model = ocr_reads_dune, OF this] show ?thesis
    by (simp add: strip_def isspace_def)
qed

subsection \<open>C9: the answer does not depend on the run\<close>

text \<open>
  Claim C9, as amended. When the OCR backend's reply depends only on the bytes of the
  image it is given (it is the same for two paths that hold the same content), two
  requests that upload the same bytes, both with a non-empty filename or both with an
  empty one, get the same status and body from the same backends, whatever temporary file
  names the two runs pick and whatever else the file system holds. The assistant and
  catalog backends are functions of their inputs in the model.
\<close>

theorem same_image_same_response:
  assumes "\<forall>p fs p' fs'. fs p = fs' p' \<longrightarrow> ocr_model p fs = ocr_model p' fs'"
    and "files req1 ''file'' = Some upfile1" and "files req2 ''file'' = Some upfile2"
    and "data upfile1 = data upfile2"
    and "(filename upfile1 = '''') = (filename upfile2 = '''')"
  shows "snd (process_image ocr_model assistant loads post fs1 temp_name1 req1)
           = snd (process_image ocr_model assistant loads post fs2 temp_name2 req2)"
proof -
  have "(fs1(temp_name1 \<mapsto> data upfile1)) temp_name1 = (fs2(temp_name2 \<mapsto> data upfile2)) temp_name2"
    using assms(4) by simp
  with assms(1) have "ocr_model temp_name1 (fs1(temp_name1 \<mapsto> data upfile1))
                     = ocr_model temp_name2 (fs2(temp_name2 \<mapsto> data upfile2))"
    by blast
  then have same_text:
    "ocr_image ocr_model (fs1(temp_name1 \<mapsto> data upfile1)) temp_name1
       = ocr_image ocr_model (fs2(temp_name2 \<mapsto> data upfile2)) temp_name2"
    by (simp add: ocr_image_def)
  define raw_text where
    "raw_text = ocr_image ocr_model (fs2(temp_name2 \<mapsto> data upfile2)) temp_name2"
  note t1 = same_text [folded raw_text_def] and t2 = raw_text_def [symmetric]
  show ?thesis
  proof (cases "filename upfile1 = '''' \<or> raw_text = ''''")
    case True
    with assms(2,3,5) t1 t2 show ?thesis
      by (auto simp add: process_image_def Let_def)
  next
    case False
    with assms(5) have ok: "filename upfile1 \<noteq> ''''" "filename upfile2 \<noteq> ''''"
      "raw_text \<noteq> ''''"
      by simp_all
    show ?thesis
    proof (cases "clean_text_with_openai assistant loads raw_text")
      case (Inl e)
      with assms(2,3) ok t1 t2 show ?thesis
        by (simp add: process_image_def Let_def)
    next
      case (Inr cleaned_books)
      show ?thesis
        by (simp only: snd_process_image_normalized [OF assms(2) ok(1) t1 ok(3) Inr]
              snd_process_image_normalized [OF assms(3) ok(2) t2 ok(3) Inr])
    qed
  qed
qed

theorem same_image_same_response_witness:
  "snd (process_image ocr_reads_dune (assistant_replying reply_dune) example_loads
          catalog_no_match Map.empty ''/tmp/tmpa1'' example_request)
     = snd (process_image ocr_reads_dune (assistant_replying reply_dune) example_loads
          catalog_no_match [''/tmp/tmpa1'' \<mapsto> ''stale''] ''/tmp/tmpzz'' example_request_renamed)"
proof -
  have det: "\<forall>p fs p' fs'. fs p = fs' p' \<longrightarrow> ocr_reads_dune p fs = ocr_reads_dune p' fs'"
    by (simp add: ocr_reads_dune_def)
  have renamed:
    "files example_request_renamed ''file'' = Some \<lparr>filename = ''IMG_0042.JPG'', data = ''pixels''\<rparr>"
    by (simp add: example_defs)
  have same:
    "data \<lparr>filename = ''shelf.jpg'', data = ''pixels''\<rparr>
       = data \<lparr>filename = ''IMG_0042.JPG'', data = ''pixels''\<rparr>"
    "(filename \<lparr>filename = ''shelf.jpg'', data = ''pixels''\<rparr> = '''')
       = (filename \<lparr>filename = ''IMG_0042.JPG'', data = ''pixels''\<rparr> = '''')"
    by simp_all
  show ?thesis
    by (rule same_image_same_response [OF det example_upload(1) renamed same])
qed

text \<open>
  The claim as stated fails. The handler hands the backend the path of a temporary file
  whose name differs from run to run, and the path is an input of the backend: a backend
  that is a function of its inputs and raises an exception naming the path makes the
  message the extracted text, so the same request gets two different 200 bodies. And two
  requests with the same bytes, one of them without filename, get 400 and 200.
\<close>

theorem temp_path_reaches_response:
  "snd (process_image ocr_names_path (assistant_replying reply_no_books) example_loads
          catalog_no_match Map.empty ''/tmp/tmpa1'' example_request)
     = Inr (200, PDict [(''extracted_text'', PStr ''cannot read /tmp/tmpa1''),
                        (''books_info'', PList [])])
   \<and> snd (process_image ocr_names_path (assistant_replying reply_no_books) example_loads
          catalog_no_match Map.empty ''/tmp/tmpzz'' example_request)
     = Inr (200, PDict [(''extracted_text'', PStr ''cannot read /tmp/tmpzz''),
                        (''books_info'', PList [])])
   \<and> snd (process_image ocr_names_path (assistant_replying reply_no_books) example_loads
          catalog_no_match Map.empty ''/tmp/tmpa1'' example_request)
     \<noteq> snd (process_image ocr_names_path (assistant_replying reply_no_books) example_loads
          catalog_no_match Map.empty ''/tmp/tmpzz'' example_request)
   \<and> snd (process_image ocr_reads_dune (assistant_replying reply_no_books) example_loads
          catalog_no_match Map.empty ''/tmp/tmpa1'' request_empty_filename)
     \<noteq> snd (process_image ocr_reads_dune (assistant_replying reply_no_books) example_loads
          catalog_no_match Map.empty ''/tmp/tmpa1'' example_request)"
  by (simp add: source_defs example_defs)

subsection \<open>C10: a candidate list that contains the string error\<close>

text \<open>
  Claim C10. When the normalizer returns a list that has the string \<^verbatim>\<open>error\<close> among its
  elements, the test \<^verbatim>\<open>"error" in cleaned_books\<close> is true, \<^verbatim>\<open>cleaned_books["error"]\<close> raises
  TypeError, and the handler ends with that exception after the OCR and normalizer calls:
  no catalog call is made and no 200 answer is produced.
\<close>

theorem error_element_takes_failure_branch:
  assumes "files req ''file'' = Some upfile" and "filename upfile \<noteq> ''''"
    and "ocr_image ocr_model (fs(temp_name \<mapsto> data upfile)) temp_name = raw_text"
    and "raw_text \<noteq> ''''"
    and "clean_text_with_openai assistant loads raw_text = Inr (PList books)"
    and "PStr ''error'' \<in> set books"
  shows "py_in ''error'' (PList books) = Inr True
         \<and> py_getitem (PList books) ''error'' = Inl TypeError
         \<and> process_image ocr_model assistant loads post fs temp_name req
             = ([OcrCall temp_name, NormalizeCall raw_text], Inl TypeError)"
  using assms by (simp add: process_image_normalized)

theorem error_element_takes_failure_branch_witness:
  "process_image ocr_reads_dune (assistant_replying reply_books_error) example_loads
      catalog_no_match Map.empty ''/tmp/tmpa1'' example_request
     = ([OcrCall ''/tmp/tmpa1'', NormalizeCall ''Dune Frank Herbert''], Inl TypeError)"
proof -
  have norm: "clean_text_with_openai (assistant_replying reply_books_error) example_loads
                ''Dune Frank Herbert'' = Inr (PList [PStr ''error''])"
    by (simp add: source_defs example_defs)
  have "PStr ''error'' \<in> set [PStr ''error'']" by simp
  from error_element_takes_failure_branch [OF example_upload example_ocr norm this]
  show ?thesis by blast
qed

end
